theory Spec2Isabelle
  imports Main "HOL-Library.Word"
begin

unbundle bit_operations_syntax

section \<open>Documents and collections\<close>

text \<open>
  The order and payment flow of the marketplace backend: the route handlers of
  \<^verbatim>\<open>routes/orders.js\<close> and \<^verbatim>\<open>routes/payments.js\<close> over the Mongoose models
  Product, Order and Payment. Object ids are natural numbers. A JavaScript Number that
  the handlers compare or add (stock, quantity, price, amounts) is an \<open>int\<close>; a value
  that may be \<^verbatim>\<open>undefined\<close> (or \<^verbatim>\<open>NaN\<close>, for a Number) is an \<open>option\<close>.
\<close>

type_synonym object_id = nat

record Product =
  title :: string
  price :: int
  stock :: int
  isActive :: bool

text \<open>One element of \<^verbatim>\<open>orderSchema.products\<close>.\<close>

record Item =
  product :: object_id
  quantity :: int

text \<open>
  A line item as the body of a request carries it. \<^verbatim>\<open>item.product\<close> is any value the
  client sent: \<open>Ref i\<close> is a value that casts to the ObjectId \<open>i\<close>, \<open>Malformed s\<close> is
  a value that does not (a string such as \<^verbatim>\<open>'abc'\<close>), on which every lookup by id and
  every cast to an ObjectId path throws a CastError.
\<close>

datatype product_ref = Ref object_id | Malformed string

record LineItem =
  item_product :: product_ref
  item_quantity :: int

record TrackingInfo =
  provider :: string
  trackingNumber :: string
  trackingStatus :: string

record Order =
  user :: "object_id option"
  products :: "Item list"
  totalAmount :: "int option"
  status :: string
  shippingAddress :: "string option"
  trackingInfo :: "TrackingInfo option"

text \<open>
  \<^verbatim>\<open>paymentSchema\<close>; its field \<^verbatim>\<open>method\<close> is spelled \<open>pmethod\<close> here, and its
  field \<^verbatim>\<open>status\<close> is \<open>pstatus\<close>.
\<close>

record Payment =
  order :: object_id
  amount :: "int option"
  pmethod :: string
  pstatus :: string
  transactionId :: "string option"

text \<open>
  The database: the Product collection keyed by id, the Order collection as a list whose
  positions are the ids (a new document gets the next position, so ids are fresh), and
  the Payment collection in insertion order.
\<close>

record db =
  db_products :: "object_id \<rightharpoonup> Product"
  db_orders :: "Order list"
  db_payments :: "Payment list"

definition findById :: "'a list \<Rightarrow> object_id \<Rightarrow> 'a option" where
  "findById docs i = (if i < length docs then Some (docs ! i) else None)"

text \<open>The authenticated principal that \<^verbatim>\<open>authenticateToken\<close> puts into \<^verbatim>\<open>req.user\<close>.\<close>

record User =
  uid :: object_id
  role :: string

section \<open>Responses\<close>

text \<open>
  Every \<^verbatim>\<open>res.status(...).json({ error: ... })\<close> of the handlers is one constructor;
  \<open>http_status\<close> is the status code the handler sends with it. The constructors with
  status 500 are the \<^verbatim>\<open>catch\<close> blocks, reached when a \<^verbatim>\<open>save()\<close> is rejected.
\<close>

datatype error =
    ProductsRequired
  | ShippingAddressRequired
  | ProductNotFound object_id
  | ProductNotAvailable string
  | InsufficientStock string
  | CustomerInfoRequired
  | FailedToCreateOrder
  | InvalidStatus
  | OrderNotFound
  | FailedToUpdateStatus
  | NotAuthorizedToCancel
  | AlreadyCancelled
  | CannotCancelDelivered
  | FailedToCancel
  | InvalidSignature
  | WebhookProcessingFailed
  | PaymentConfirmationFailed

fun http_status :: "error \<Rightarrow> nat" where
  "http_status ProductsRequired = 400"
| "http_status ShippingAddressRequired = 400"
| "http_status (ProductNotFound i) = 400"
| "http_status (ProductNotAvailable t) = 400"
| "http_status (InsufficientStock t) = 400"
| "http_status CustomerInfoRequired = 400"
| "http_status FailedToCreateOrder = 500"
| "http_status InvalidStatus = 400"
| "http_status OrderNotFound = 404"
| "http_status FailedToUpdateStatus = 500"
| "http_status NotAuthorizedToCancel = 403"
| "http_status AlreadyCancelled = 400"
| "http_status CannotCancelDelivered = 400"
| "http_status FailedToCancel = 500"
| "http_status InvalidSignature = 400"
| "http_status WebhookProcessingFailed = 500"
| "http_status PaymentConfirmationFailed = 500"

datatype reply =
    OrderCreated object_id nat
  | StatusUpdated Order
  | OrderCancelled
  | WebhookAccepted
  | PaymentConfirmed Order
  | PaymentNotCompleted

section \<open>Schema validation on save\<close>

text \<open>
  \<^verbatim>\<open>doc.save()\<close> validates the document against its schema and rejects (throws) when
  a \<^verbatim>\<open>required\<close> path is missing or a String path with an \<^verbatim>\<open>enum\<close> holds a value
  outside it. The enumerations are those of \<^verbatim>\<open>orderSchema\<close> and \<^verbatim>\<open>paymentSchema\<close>.
\<close>

definition order_status_enum :: "string list" where
  "order_status_enum =
     [''pending'', ''confirmed'', ''shipped'', ''delivered'', ''cancelled'', ''returned'']"

definition payment_method_enum :: "string list" where
  "payment_method_enum = [''card'', ''cash_on_delivery'', ''bank_transfer'']"

definition payment_status_enum :: "string list" where
  "payment_status_enum = [''pending'', ''paid'', ''failed'', ''refunded'']"

text \<open>JavaScript truthiness of a string that may be undefined.\<close>

fun truthy :: "string option \<Rightarrow> bool" where
  "truthy None = False"
| "truthy (Some s) = (s \<noteq> [])"

definition order_valid :: "Order \<Rightarrow> bool" where
  "order_valid d =
     (totalAmount d \<noteq> None \<and> truthy (shippingAddress d) \<and>
      status d \<in> set order_status_enum)"

definition payment_valid :: "Payment \<Rightarrow> bool" where
  "payment_valid d =
     (amount d \<noteq> None \<and> pmethod d \<in> set payment_method_enum \<and>
      pstatus d \<in> set payment_status_enum)"

section \<open>Order service\<close>

subsection \<open>Creating an order\<close>

text \<open>
  The fields that \<^verbatim>\<open>POST /\<close> of the orders router reads from \<^verbatim>\<open>req.body\<close>.
  \<open>req_products = None\<close> stands for a body whose \<^verbatim>\<open>products\<close> is missing or not an
  array.
\<close>

record order_request =
  req_products :: "LineItem list option"
  req_shippingAddress :: "string option"
  customerName :: "string option"
  customerEmail :: "string option"
  customerPhone :: "string option"
  req_totalAmount :: "int option"

text \<open>
  The first loop of the handler: it returns at the first line item that fails a check.
  \<^verbatim>\<open>Product.findById(item.product)\<close> throws on a malformed reference; the throw leaves
  the loop for the \<^verbatim>\<open>catch\<close> block, which answers 500.
\<close>

fun validate_items :: "(object_id \<rightharpoonup> Product) \<Rightarrow> LineItem list \<Rightarrow> error option" where
  "validate_items ps [] = None"
| "validate_items ps (it # its) =
     (case item_product it of
        Malformed s \<Rightarrow> Some FailedToCreateOrder
      | Ref i \<Rightarrow>
          (case ps i of
             None \<Rightarrow> Some (ProductNotFound i)
           | Some p \<Rightarrow>
               if \<not> isActive p then Some (ProductNotAvailable (title p))
               else if stock p < item_quantity it then Some (InsufficientStock (title p))
               else validate_items ps its))"

text \<open>
  \<^verbatim>\<open>new Order(orderData)\<close> casts the line items to the subdocuments of
  \<^verbatim>\<open>orderSchema.products\<close>; a reference that does not cast makes \<^verbatim>\<open>order.save()\<close>
  reject. The stock loop addresses the products by the same references.
\<close>

fun cast_items :: "LineItem list \<Rightarrow> Item list option" where
  "cast_items [] = Some []"
| "cast_items (it # its) =
     (case item_product it of
        Malformed s \<Rightarrow> None
      | Ref i \<Rightarrow>
          (case cast_items its of
             None \<Rightarrow> None
           | Some rest \<Rightarrow> Some (\<lparr>product = i, quantity = item_quantity it\<rparr> # rest)))"

text \<open>
  \<^verbatim>\<open>Product.findByIdAndUpdate(id, { $inc: { stock: n } })\<close>: nothing happens when no
  product has the id.
\<close>

definition inc_stock :: "(object_id \<rightharpoonup> Product) \<Rightarrow> object_id \<Rightarrow> int \<Rightarrow> (object_id \<rightharpoonup> Product)" where
  "inc_stock ps i n =
     (case ps i of None \<Rightarrow> ps | Some p \<Rightarrow> ps(i \<mapsto> p\<lparr>stock := stock p + n\<rparr>))"

text \<open>The second loop of the handler: one decrement per line item, in order.\<close>

fun decrement_stock :: "(object_id \<rightharpoonup> Product) \<Rightarrow> Item list \<Rightarrow> (object_id \<rightharpoonup> Product)" where
  "decrement_stock ps [] = ps"
| "decrement_stock ps (it # its) =
     decrement_stock (inc_stock ps (product it) (- quantity it)) its"

text \<open>
  The handler, in the order of the source: the two checks of the body, the validation
  loop, the guest check, \<^verbatim>\<open>order.save()\<close>, the stock loop, \<^verbatim>\<open>payment.save()\<close>. A
  rejected save throws into the \<^verbatim>\<open>catch\<close> block, which answers 500 and undoes
  nothing: the state returned with the error is the state reached so far.
  \<open>req_user\<close> is \<^verbatim>\<open>req.user\<close>.
\<close>

definition createOrder :: "db \<Rightarrow> User option \<Rightarrow> order_request \<Rightarrow> (error + reply) \<times> db" where
  "createOrder d req_user body =
     (case req_products body of
        None \<Rightarrow> (Inl ProductsRequired, d)
      | Some items \<Rightarrow>
          if items = [] then (Inl ProductsRequired, d)
          else if \<not> truthy (req_shippingAddress body) then (Inl ShippingAddressRequired, d)
          else
            (case validate_items (db_products d) items of
               Some e \<Rightarrow> (Inl e, d)
             | None \<Rightarrow>
                 if req_user = None \<and>
                    \<not> (truthy (customerName body) \<and> truthy (customerEmail body) \<and>
                       truthy (customerPhone body))
                 then (Inl CustomerInfoRequired, d)
                 else
                   (case cast_items items of
                      None \<Rightarrow> (Inl FailedToCreateOrder, d)
                    | Some its \<Rightarrow>
                        let orderData = \<lparr>user = map_option uid req_user, products = its,
                              totalAmount = req_totalAmount body, status = ''pending'',
                              shippingAddress = req_shippingAddress body, trackingInfo = None\<rparr>
                        in if \<not> order_valid orderData then (Inl FailedToCreateOrder, d)
                           else
                             let oid = length (db_orders d);
                                 d1 = d\<lparr>db_orders := db_orders d @ [orderData]\<rparr>;
                                 d2 = d1\<lparr>db_products := decrement_stock (db_products d1) its\<rparr>;
                                 payment = \<lparr>order = oid, amount = req_totalAmount body,
                                   pmethod = ''pending'', pstatus = ''pending'',
                                   transactionId = None\<rparr>
                             in if \<not> payment_valid payment then (Inl FailedToCreateOrder, d2)
                                else (Inr (OrderCreated oid (length (db_payments d2))),
                                      d2\<lparr>db_payments := db_payments d2 @ [payment]\<rparr>))))"

subsection \<open>Admin status update\<close>

definition validStatuses :: "string list" where
  "validStatuses =
     [''pending'', ''confirmed'', ''shipped'', ''delivered'', ''cancelled'', ''returned'']"

text \<open>
  \<^verbatim>\<open>PATCH /:id/status\<close>, behind \<^verbatim>\<open>authenticateToken\<close> and
  \<^verbatim>\<open>authorizeRoles('admin')\<close>. \<open>new_status\<close> is \<^verbatim>\<open>req.body.status\<close> and
  \<open>tracking\<close> is \<^verbatim>\<open>req.body.trackingInfo\<close>.
\<close>

definition updateStatus ::
  "db \<Rightarrow> object_id \<Rightarrow> string \<Rightarrow> TrackingInfo option \<Rightarrow> (error + reply) \<times> db" where
  "updateStatus d oid new_status tracking =
     (if new_status \<notin> set validStatuses then (Inl InvalidStatus, d)
      else
        (case findById (db_orders d) oid of
           None \<Rightarrow> (Inl OrderNotFound, d)
         | Some ord \<Rightarrow>
             let ord1 = ord\<lparr>status := new_status\<rparr>;
                 ord2 = (if new_status = ''shipped'' \<and> tracking \<noteq> None
                         then ord1\<lparr>trackingInfo := tracking\<rparr> else ord1)
             in if \<not> order_valid ord2 then (Inl FailedToUpdateStatus, d)
                else (Inr (StatusUpdated ord2), d\<lparr>db_orders := (db_orders d)[oid := ord2]\<rparr>)))"

subsection \<open>Cancelling an order\<close>

text \<open>The loop that would give the stock of every line item back.\<close>

fun restore_stock :: "(object_id \<rightharpoonup> Product) \<Rightarrow> Item list \<Rightarrow> (object_id \<rightharpoonup> Product)" where
  "restore_stock ps [] = ps"
| "restore_stock ps (it # its) =
     restore_stock (inc_stock ps (product it) (quantity it)) its"

text \<open>
  \<^verbatim>\<open>PATCH /:id/cancel\<close>, behind \<^verbatim>\<open>authenticateToken\<close>. The membership test of the
  restore step reads \<^verbatim>\<open>order.status\<close> after the assignment of \<^verbatim>\<open>'cancelled'\<close>,
  as the source does.
\<close>

definition cancelOrder :: "db \<Rightarrow> User \<Rightarrow> object_id \<Rightarrow> (error + reply) \<times> db" where
  "cancelOrder d req_user oid =
     (case findById (db_orders d) oid of
        None \<Rightarrow> (Inl OrderNotFound, d)
      | Some ord \<Rightarrow>
          if role req_user \<noteq> ''admin'' \<and> user ord \<noteq> None \<and> user ord \<noteq> Some (uid req_user)
          then (Inl NotAuthorizedToCancel, d)
          else if status ord = ''cancelled'' then (Inl AlreadyCancelled, d)
          else if status ord = ''delivered'' then (Inl CannotCancelDelivered, d)
          else
            let ord1 = ord\<lparr>status := ''cancelled''\<rparr>
            in if \<not> order_valid ord1 then (Inl FailedToCancel, d)
               else
                 let d1 = d\<lparr>db_orders := (db_orders d)[oid := ord1]\<rparr>;
                     d2 = (if status ord1 \<in> set [''confirmed'', ''shipped'']
                           then d1\<lparr>db_products := restore_stock (db_products d1) (products ord1)\<rparr>
                           else d1)
                 in (Inr OrderCancelled, d2))"

section \<open>Payment gateway\<close>

subsection \<open>Signature of a notification\<close>

text \<open>
  \<^verbatim>\<open>String.prototype.toUpperCase\<close> on the characters a hex digest is made of: the
  ASCII letters a to z move to A to Z, every other character stays.
\<close>

definition upper_char :: "char \<Rightarrow> char" where
  "upper_char c =
     (let n = (of_char c :: nat) in if 97 \<le> n \<and> n \<le> 122 then char_of (n - 32) else c)"

definition toUpperCase :: "string \<Rightarrow> string" where
  "toUpperCase s = map upper_char s"

text \<open>The fields that \<^verbatim>\<open>POST /payhere-webhook\<close> reads from \<^verbatim>\<open>req.body\<close>.\<close>

record notification =
  merchant_id :: string
  order_id :: string
  payment_id :: string
  payhere_amount :: string
  payhere_currency :: string
  status_code :: string
  md5sig :: string
  custom_1 :: object_id
  custom_2 :: string

text \<open>
  \<^verbatim>\<open>process.env.PAYHERE_SECRET_KEY || ''\<close>: an unset or empty variable gives the empty
  secret.
\<close>

definition merchantSecret :: "string option \<Rightarrow> string" where
  "merchantSecret secret_key = (case secret_key of None \<Rightarrow> [] | Some s \<Rightarrow> s)"

text \<open>
  The digest the handler compares with. \<open>md5\<close> is the hash of Node's crypto module,
  \<^verbatim>\<open>s => crypto.createHash('md5').update(s).digest('hex')\<close>, taken as a parameter.
  This is the digest of the payments router whose comment gives the formula
  \<^verbatim>\<open>MD5(merchant_id + order_id + amount + currency + status_code +
  MD5(merchant_secret).toUpperCase()).toUpperCase()\<close> and which reads the secret from
  \<^verbatim>\<open>PAYHERE_SECRET_KEY\<close>.
\<close>

definition secretMd5Upper :: "(string \<Rightarrow> string) \<Rightarrow> string option \<Rightarrow> string" where
  "secretMd5Upper md5 secret_key = toUpperCase (md5 (merchantSecret secret_key))"

definition expectedMd5sig :: "(string \<Rightarrow> string) \<Rightarrow> string option \<Rightarrow> notification \<Rightarrow> string" where
  "expectedMd5sig md5 secret_key body =
     toUpperCase (md5 (merchant_id body @ order_id body @ payhere_amount body @
       payhere_currency body @ status_code body @ secretMd5Upper md5 secret_key))"

subsection \<open>Webhook\<close>

text \<open>
  The handler: signature check, lookup of the order \<^verbatim>\<open>custom_1\<close>, \<^verbatim>\<open>payment.save()\<close>,
  then the assignment of the order status and \<^verbatim>\<open>order.save()\<close>. \<open>toNumber\<close> is
  JavaScript's \<^verbatim>\<open>Number(...)\<close> on a string, \<open>None\<close> for \<^verbatim>\<open>NaN\<close>, which the Number
  path \<^verbatim>\<open>amount\<close> does not accept. The assignments to \<^verbatim>\<open>order.paymentStatus\<close> and
  \<^verbatim>\<open>order.paymentId\<close> set no path of \<^verbatim>\<open>orderSchema\<close> and store nothing.
\<close>

definition payhere_webhook ::
  "(string \<Rightarrow> string) \<Rightarrow> (string \<Rightarrow> int option) \<Rightarrow> string option \<Rightarrow> db \<Rightarrow> notification
     \<Rightarrow> (error + reply) \<times> db" where
  "payhere_webhook md5 toNumber secret_key d body =
     (if md5sig body \<noteq> expectedMd5sig md5 secret_key body then (Inl InvalidSignature, d)
      else
        (case findById (db_orders d) (custom_1 body) of
           None \<Rightarrow> (Inl OrderNotFound, d)
         | Some ord \<Rightarrow>
             let payment = \<lparr>order = custom_1 body, amount = toNumber (payhere_amount body),
                   pmethod = ''card'',
                   pstatus = (if status_code body = ''2'' then ''paid'' else ''failed''),
                   transactionId = Some (payment_id body)\<rparr>
             in if \<not> payment_valid payment then (Inl WebhookProcessingFailed, d)
                else
                  let d1 = d\<lparr>db_payments := db_payments d @ [payment]\<rparr>;
                      ord1 = (if status_code body = ''2''
                              then ord\<lparr>status := ''confirmed''\<rparr>
                              else ord\<lparr>status := ''payment_failed''\<rparr>)
                  in if \<not> order_valid ord1 then (Inl WebhookProcessingFailed, d1)
                     else (Inr WebhookAccepted,
                           d1\<lparr>db_orders := (db_orders d1)[custom_1 body := ord1]\<rparr>)))"

subsection \<open>Webhook of the router that reads PAYHERE_SECRET\<close>

text \<open>
  The repository holds a second payments router with a handler for the same route,
  \<^verbatim>\<open>routes/payments.js\<close>. Its secret is \<^verbatim>\<open>process.env.PAYHERE_SECRET || 'CHANGE123'\<close>,
  and its digest is taken over the five fields and the secret itself, with no digest of
  the secret.
\<close>

definition plainSecret :: "string option \<Rightarrow> string" where
  "plainSecret secret_var =
     (case secret_var of None \<Rightarrow> ''CHANGE123'' | Some s \<Rightarrow> if s = [] then ''CHANGE123'' else s)"

definition expectedMd5sig_plain :: "(string \<Rightarrow> string) \<Rightarrow> string option \<Rightarrow> notification \<Rightarrow> string" where
  "expectedMd5sig_plain md5 secret_var body =
     toUpperCase (md5 (merchant_id body @ order_id body @ payhere_amount body @
       payhere_currency body @ status_code body @ plainSecret secret_var))"

text \<open>
  The paths of \<^verbatim>\<open>paymentSchema\<close> that an object given to \<^verbatim>\<open>new Payment(...)\<close> sets;
  keys that are no path of the schema are dropped. \<open>save_payment\<close> is the document that
  \<^verbatim>\<open>payment.save()\<close> stores, \<open>None\<close> when it rejects: the paths \<^verbatim>\<open>order\<close> and
  \<^verbatim>\<open>method\<close> are required.
\<close>

record PaymentFields =
  set_order :: "object_id option"
  set_amount :: "int option"
  set_method :: "string option"
  set_status :: string
  set_transactionId :: "string option"

definition save_payment :: "PaymentFields \<Rightarrow> Payment option" where
  "save_payment f =
     (case set_order f of
        None \<Rightarrow> None
      | Some i \<Rightarrow>
          (case set_method f of
             None \<Rightarrow> None
           | Some m \<Rightarrow>
               let p = \<lparr>order = i, amount = set_amount f, pmethod = m, pstatus = set_status f,
                     transactionId = set_transactionId f\<rparr>
               in if payment_valid p then Some p else None))"

text \<open>
  The handler of this router. Of the keys it gives to \<^verbatim>\<open>new Payment(...)\<close>
  (\<^verbatim>\<open>orderId, userId, paymentId, amount, currency, status, paymentMethod, gateway,
  gatewayResponse\<close>) only \<^verbatim>\<open>amount\<close> and \<^verbatim>\<open>status\<close> are paths of the schema.
\<close>

definition payhere_webhook_plain ::
  "(string \<Rightarrow> string) \<Rightarrow> (string \<Rightarrow> int option) \<Rightarrow> string option \<Rightarrow> db \<Rightarrow> notification
     \<Rightarrow> (error + reply) \<times> db" where
  "payhere_webhook_plain md5 toNumber secret_var d body =
     (if md5sig body \<noteq> expectedMd5sig_plain md5 secret_var body then (Inl InvalidSignature, d)
      else
        (case findById (db_orders d) (custom_1 body) of
           None \<Rightarrow> (Inl OrderNotFound, d)
         | Some ord \<Rightarrow>
             (case save_payment \<lparr>set_order = None, set_amount = toNumber (payhere_amount body),
                     set_method = None,
                     set_status = (if status_code body = ''2'' then ''completed'' else ''failed''),
                     set_transactionId = None\<rparr> of
                None \<Rightarrow> (Inl WebhookProcessingFailed, d)
              | Some payment \<Rightarrow>
                  let d1 = d\<lparr>db_payments := db_payments d @ [payment]\<rparr>;
                      ord1 = (if status_code body = ''2''
                              then ord\<lparr>status := ''confirmed''\<rparr>
                              else ord\<lparr>status := ''payment_failed''\<rparr>)
                  in if \<not> order_valid ord1 then (Inl WebhookProcessingFailed, d1)
                     else (Inr WebhookAccepted,
                           d1\<lparr>db_orders := (db_orders d1)[custom_1 body := ord1]\<rparr>))))"

subsection \<open>MD5\<close>

text \<open>
  The hash itself, after RFC 1321, for the runs of the handlers on given requests: the
  sine table, the shift amounts, one step of the compression function, the compression
  of one 64-byte block, the padding, and the digest in lower-case hex as
  \<^verbatim>\<open>digest('hex')\<close> prints it. Bytes are kept in 32-bit words.
\<close>

definition md5_K :: "32 word list" where
  "md5_K =
     [0xd76aa478, 0xe8c7b756, 0x242070db, 0xc1bdceee, 0xf57c0faf, 0x4787c62a,
      0xa8304613, 0xfd469501, 0x698098d8, 0x8b44f7af, 0xffff5bb1, 0x895cd7be,
      0x6b901122, 0xfd987193, 0xa679438e, 0x49b40821, 0xf61e2562, 0xc040b340,
      0x265e5a51, 0xe9b6c7aa, 0xd62f105d, 0x02441453, 0xd8a1e681, 0xe7d3fbc8,
      0x21e1cde6, 0xc33707d6, 0xf4d50d87, 0x455a14ed, 0xa9e3e905, 0xfcefa3f8,
      0x676f02d9, 0x8d2a4c8a, 0xfffa3942, 0x8771f681, 0x6d9d6122, 0xfde5380c,
      0xa4beea44, 0x4bdecfa9, 0xf6bb4b60, 0xbebfbc70, 0x289b7ec6, 0xeaa127fa,
      0xd4ef3085, 0x04881d05, 0xd9d4d039, 0xe6db99e5, 0x1fa27cf8, 0xc4ac5665,
      0xf4292244, 0x432aff97, 0xab9423a7, 0xfc93a039, 0x655b59c3, 0x8f0ccc92,
      0xffeff47d, 0x85845dd1, 0x6fa87e4f, 0xfe2ce6e0, 0xa3014314, 0x4e0811a1,
      0xf7537e82, 0xbd3af235, 0x2ad7d2bb, 0xeb86d391]"

definition md5_s :: "nat list" where
  "md5_s =
     [7, 12, 17, 22, 7, 12, 17, 22, 7, 12, 17, 22, 7, 12, 17, 22,
      5, 9, 14, 20, 5, 9, 14, 20, 5, 9, 14, 20, 5, 9, 14, 20,
      4, 11, 16, 23, 4, 11, 16, 23, 4, 11, 16, 23, 4, 11, 16, 23,
      6, 10, 15, 21, 6, 10, 15, 21, 6, 10, 15, 21, 6, 10, 15, 21]"

type_synonym md5_state = "32 word \<times> 32 word \<times> 32 word \<times> 32 word"

definition md5_step :: "32 word list \<Rightarrow> md5_state \<Rightarrow> nat \<Rightarrow> md5_state" where
  "md5_step M st i =
     (case st of (a, b, c, d) \<Rightarrow>
        let f = (if i < 16 then (b AND c) OR (NOT b AND d)
                 else if i < 32 then (d AND b) OR (NOT d AND c)
                 else if i < 48 then b XOR c XOR d
                 else c XOR (b OR NOT d));
            g = (if i < 16 then i
                 else if i < 32 then (5 * i + 1) mod 16
                 else if i < 48 then (3 * i + 5) mod 16
                 else (7 * i) mod 16);
            f1 = f + a + md5_K ! i + M ! g
        in (d, b + word_rotl (md5_s ! i) f1, b, c))"

definition word_of_bytes :: "32 word list \<Rightarrow> 32 word" where
  "word_of_bytes bs = foldr (\<lambda>b acc. b + push_bit 8 acc) bs 0"

definition md5_block :: "md5_state \<Rightarrow> 32 word list \<Rightarrow> md5_state" where
  "md5_block st block =
     (let M = map (\<lambda>k. word_of_bytes (take 4 (drop (4 * k) block))) [0..<16]
      in case (st, foldl (md5_step M) st [0..<64]) of
           ((a0, b0, c0, d0), (a, b, c, d)) \<Rightarrow> (a0 + a, b0 + b, c0 + c, d0 + d))"

definition md5_pad :: "32 word list \<Rightarrow> 32 word list" where
  "md5_pad bs =
     bs @ [128] @ replicate ((119 - length bs mod 64) mod 64) 0 @
     map (\<lambda>k. ucast (drop_bit (8 * k) (8 * of_nat (length bs) :: 64 word) AND 255)) [0..<8]"

definition hex_byte :: "32 word \<Rightarrow> string" where
  "hex_byte b =
     [''0123456789abcdef'' ! unat (drop_bit 4 b), ''0123456789abcdef'' ! unat (b AND 15)]"

definition bytes_of_word :: "32 word \<Rightarrow> 32 word list" where
  "bytes_of_word w = map (\<lambda>k. drop_bit (8 * k) w AND 255) [0..<4]"

definition md5_hex :: "string \<Rightarrow> string" where
  "md5_hex s =
     (let bs = md5_pad (map (\<lambda>c. of_nat (of_char c)) s);
          blocks = map (\<lambda>k. take 64 (drop (64 * k) bs)) [0..<length bs div 64]
      in case foldl md5_block (0x67452301, 0xefcdab89, 0x98badcfe, 0x10325476) blocks of
           (a, b, c, d) \<Rightarrow> concat (map hex_byte (concat (map bytes_of_word [a, b, c, d]))))"

subsection \<open>Confirmation from the frontend\<close>

text \<open>\<^verbatim>\<open>POST /confirm\<close> with the body \<^verbatim>\<open>{ orderId, paymentId, status }\<close>.\<close>

definition confirm :: "db \<Rightarrow> object_id \<Rightarrow> string \<Rightarrow> string \<Rightarrow> (error + reply) \<times> db" where
  "confirm d orderId paymentId confirm_status =
     (case findById (db_orders d) orderId of
        None \<Rightarrow> (Inl OrderNotFound, d)
      | Some ord \<Rightarrow>
          if confirm_status = ''completed'' then
            let ord1 = ord\<lparr>status := ''confirmed''\<rparr>
            in if \<not> order_valid ord1 then (Inl PaymentConfirmationFailed, d)
               else (Inr (PaymentConfirmed ord1), d\<lparr>db_orders := (db_orders d)[orderId := ord1]\<rparr>)
          else (Inr PaymentNotCompleted, d))"

section \<open>Sample states and requests\<close>

text \<open>
  One product with five pieces in stock, an empty shop, and the shop after a customer's
  order of three pieces, with the order in a given status.
\<close>

definition clay_pot :: Product where
  "clay_pot = \<lparr>title = ''Clay pot'', price = 100, stock = 5, isActive = True\<rparr>"

definition shop :: db where
  "shop = \<lparr>db_products = [1 \<mapsto> clay_pot], db_orders = [], db_payments = []\<rparr>"

text \<open>
  The body of a guest's request with given line items, and the request a client sends
  for given items of well-formed product ids.
\<close>

definition guest_body :: "LineItem list \<Rightarrow> int option \<Rightarrow> order_request" where
  "guest_body items claimed =
     \<lparr>req_products = Some items, req_shippingAddress = Some ''12 Galle Road, Colombo'',
      customerName = Some ''Nimal'', customerEmail = Some ''nimal@example.com'',
      customerPhone = Some ''0711234567'', req_totalAmount = claimed\<rparr>"

definition sent :: "Item \<Rightarrow> LineItem" where
  "sent it = \<lparr>item_product = Ref (product it), item_quantity = quantity it\<rparr>"

definition guest_request :: "Item list \<Rightarrow> int option \<Rightarrow> order_request" where
  "guest_request its claimed = guest_body (map sent its) claimed"

definition placed_order :: "string \<Rightarrow> Order" where
  "placed_order st =
     \<lparr>user = Some 5, products = [\<lparr>product = 1, quantity = 3\<rparr>], totalAmount = Some 300,
      status = st, shippingAddress = Some ''12 Galle Road, Colombo'', trackingInfo = None\<rparr>"

definition shop_after_order :: "string \<Rightarrow> db" where
  "shop_after_order st =
     \<lparr>db_products = [1 \<mapsto> clay_pot\<lparr>stock := 2\<rparr>], db_orders = [placed_order st],
      db_payments = []\<rparr>"

definition admin :: User where
  "admin = \<lparr>uid = 9, role = ''admin''\<rparr>"

definition other_customer :: User where
  "other_customer = \<lparr>uid = 7, role = ''user''\<rparr>"

text \<open>A notification of the gateway for order 0, and the same notification signed.\<close>

definition gateway_notice :: "string \<Rightarrow> notification" where
  "gateway_notice code =
     \<lparr>merchant_id = ''1221149'', order_id = ''ORD-0'', payment_id = ''320025071278'',
      payhere_amount = ''300.00'', payhere_currency = ''LKR'', status_code = code,
      md5sig = [], custom_1 = 0, custom_2 = ''5''\<rparr>"

definition signed :: "(string \<Rightarrow> string) \<Rightarrow> string option \<Rightarrow> notification \<Rightarrow> notification" where
  "signed md5 secret_key body = body\<lparr>md5sig := expectedMd5sig md5 secret_key body\<rparr>"

text \<open>
  The success notification for order 0 with the signature that the gateway computes for
  the merchant secret \<^verbatim>\<open>s3cret\<close>.
\<close>

definition gateway_signed_notice :: notification where
  "gateway_signed_notice =
     (gateway_notice ''2'')\<lparr>md5sig := ''724E4FF81EB382F9F1C94481E1194CDE''\<rparr>"

section \<open>Order creation\<close>

subsection \<open>The validation loop\<close>




lemma validate_items_cast: "validate_items ps its = None \<Longrightarrow> cast_items its \<noteq> None"
  by (induction its) (auto split: option.splits if_splits product_ref.splits)

lemma cast_items_sent: "cast_items (map sent its) = Some its"
  by (induction its) (simp_all add: sent_def)




subsection \<open>Past the validation loop\<close>

text \<open>
  The payment document that the handler builds has the method \<^verbatim>\<open>'pending'\<close>, which is
  not in the enumeration of \<^verbatim>\<open>paymentSchema.method\<close>: its save is always rejected, so the
  handler never reaches its 201 answer.
\<close>

lemma payment_of_createOrder_invalid:
  "\<not> payment_valid \<lparr>order = i, amount = a, pmethod = ''pending'', pstatus = ''pending'',
       transactionId = None\<rparr>"
  by (simp add: payment_valid_def payment_method_enum_def)

lemma createOrder_never_answers_201: "fst (createOrder d req_user body) \<noteq> Inr r"
  by (auto simp: createOrder_def Let_def payment_of_createOrder_invalid
      split: option.splits)

text \<open>The stock loop takes from every product the sum of the quantities asked of it.\<close>

lemma decrement_stock_lookup:
  "decrement_stock ps its i =
     map_option (\<lambda>p. p\<lparr>stock := stock p - (\<Sum>it\<leftarrow>filter (\<lambda>it. product it = i) its. quantity it)\<rparr>)
       (ps i)"
proof (induction its arbitrary: ps)
  case Nil
  show ?case by (cases "ps i") simp_all
next
  case (Cons it its)
  show ?case
    by (cases "ps i"; cases "ps (product it)")
      (auto simp: Cons.IH inc_stock_def)
qed

text \<open>
  The state a guest request reaches when every check passes: the order is stored with
  status pending and the total the request claims, the stock is decremented, and the
  answer is the 500 of the rejected payment.
\<close>

lemma createOrder_past_validation:
  assumes "req_products body = Some items" and "items \<noteq> []"
    and "truthy (req_shippingAddress body)"
    and "validate_items (db_products d) items = None"
    and "cast_items items = Some its"
    and "truthy (customerName body)" and "truthy (customerEmail body)"
    and "truthy (customerPhone body)" and "req_totalAmount body = Some a"
  shows "createOrder d req_user body =
     (Inl FailedToCreateOrder,
      d\<lparr>db_orders := db_orders d @
           [\<lparr>user = map_option uid req_user, products = its, totalAmount = Some a,
             status = ''pending'', shippingAddress = req_shippingAddress body,
             trackingInfo = None\<rparr>],
        db_products := decrement_stock (db_products d) its\<rparr>)"
  using assms
  by (simp add: createOrder_def Let_def payment_of_createOrder_invalid order_valid_def
      order_status_enum_def)

text \<open>
  Claim C6, at the scenario of the specification: a product with stock 5 and an order of
  3 pieces. The order is stored with status pending and the stock falls to 2, but the
  save of the payment is rejected: the handler answers 500 and the payment collection
  stays empty, where the claim has a payment record with status pending.
\<close>

theorem createOrder_scenario_without_payment:
  "fst (createOrder shop None (guest_request [\<lparr>product = 1, quantity = 3\<rparr>] (Some 300)))
     = Inl FailedToCreateOrder
   \<and> http_status FailedToCreateOrder = 500
   \<and> db_payments (snd (createOrder shop None
        (guest_request [\<lparr>product = 1, quantity = 3\<rparr>] (Some 300)))) = []
   \<and> map status (db_orders (snd (createOrder shop None
        (guest_request [\<lparr>product = 1, quantity = 3\<rparr>] (Some 300))))) = [''pending'']
   \<and> map_option stock (db_products (snd (createOrder shop None
        (guest_request [\<lparr>product = 1, quantity = 3\<rparr>] (Some 300)))) 1) = Some 2"
  by (simp add: createOrder_def shop_def guest_request_def guest_body_def sent_def
      clay_pot_def order_valid_def payment_valid_def order_status_enum_def
      payment_method_enum_def inc_stock_def Let_def)

text \<open>
  Claim C5, at a request that names the same product twice: with stock 5, two line items
  of 3 pieces each pass the validation loop, since each is compared with the stock before
  any decrement, and the stock loop leaves the product with stock -1.
\<close>

theorem createOrder_duplicate_items_negative_stock:
  "validate_items (db_products shop)
      (map sent [\<lparr>product = 1, quantity = 3\<rparr>, \<lparr>product = 1, quantity = 3\<rparr>]) = None
   \<and> map_option stock (db_products shop 1) = Some 5
   \<and> map_option stock (db_products (snd (createOrder shop None
        (guest_request [\<lparr>product = 1, quantity = 3\<rparr>, \<lparr>product = 1, quantity = 3\<rparr>]
           (Some 600)))) 1) = Some (- 1)"
  by (simp add: createOrder_def shop_def guest_request_def guest_body_def sent_def
      clay_pot_def order_valid_def payment_valid_def order_status_enum_def
      payment_method_enum_def inc_stock_def Let_def)

text \<open>
  Claim C10, at a request that claims the total 1 for three pieces of a product whose
  price is 100: nothing compares the claimed total with the prices, and the order is
  stored with the total 1. The payment document gets the same amount, but its save is
  rejected, so no payment record with the claimed amount exists, where the claim has
  both the order and the payment created.
\<close>

theorem createOrder_claimed_total_unchecked:
  "fst (createOrder shop None (guest_request [\<lparr>product = 1, quantity = 3\<rparr>] (Some 1)))
     = Inl FailedToCreateOrder
   \<and> map totalAmount (db_orders (snd (createOrder shop None
        (guest_request [\<lparr>product = 1, quantity = 3\<rparr>] (Some 1))))) = [Some 1]
   \<and> db_payments (snd (createOrder shop None
        (guest_request [\<lparr>product = 1, quantity = 3\<rparr>] (Some 1)))) = []
   \<and> price clay_pot * 3 = 300"
  by (simp add: createOrder_def shop_def guest_request_def guest_body_def sent_def
      clay_pot_def order_valid_def payment_valid_def order_status_enum_def
      payment_method_enum_def inc_stock_def Let_def)

section \<open>Cancellation\<close>

text \<open>
  The restore step never runs: the status it tests is the one just assigned. No
  cancellation changes the stock of any product.
\<close>

lemma cancel_never_touches_stock:
  "db_products (snd (cancelOrder d u oid)) = db_products d"
  by (auto simp: cancelOrder_def Let_def split: option.splits)

text \<open>
  Claim C3, at the scenario of the specification: a confirmed order of 3 pieces, with
  the stock at 2 after it. The cancellation succeeds and the order becomes cancelled, but
  the stock stays at 2, where the claim has it restored to 5.
\<close>

theorem cancel_confirmed_order_keeps_stock:
  "cancelOrder (shop_after_order ''confirmed'') admin 0 =
     (Inr OrderCancelled, shop_after_order ''cancelled'')
   \<and> map_option stock (db_products (shop_after_order ''cancelled'') 1) = Some 2"
  by (simp add: cancelOrder_def shop_after_order_def placed_order_def findById_def admin_def
      order_valid_def order_status_enum_def Let_def clay_pot_def)

text \<open>
  Claim C7, as amended. Cancelling an order that is already cancelled or delivered always
  fails and returns the database as it was. The failure is a validation error (status
  400) when the caller passes the ownership check, that is, the caller is an admin, or
  the order has no user, or the order's user is the caller; otherwise it is the
  authorization error (status 403), which the handler decides first.
\<close>

theorem cancel_terminal_refused:
  assumes "findById (db_orders d) oid = Some ord"
    and "status ord = ''cancelled'' \<or> status ord = ''delivered''"
  shows "cancelOrder d u oid =
       (Inl (if role u \<noteq> ''admin'' \<and> user ord \<noteq> None \<and> user ord \<noteq> Some (uid u)
             then NotAuthorizedToCancel
             else if status ord = ''cancelled'' then AlreadyCancelled
             else CannotCancelDelivered), d)
     \<and> http_status NotAuthorizedToCancel = 403
     \<and> http_status AlreadyCancelled = 400 \<and> http_status CannotCancelDelivered = 400"
  using assms by (auto simp: cancelOrder_def)

theorem cancel_terminal_refused_witness:
  "cancelOrder (shop_after_order ''delivered'') admin 0 =
     (Inl CannotCancelDelivered, shop_after_order ''delivered'')"
  using cancel_terminal_refused [of "shop_after_order ''delivered''" 0
      "placed_order ''delivered''" admin]
  by (simp add: shop_after_order_def findById_def placed_order_def admin_def)

text \<open>
  The claim as first stated fails for a caller who is neither an admin nor the order's
  user: the cancelled order of user 5 is refused to user 7 with status 403, not 400.
\<close>

theorem cancel_terminal_by_stranger:
  "status (placed_order ''cancelled'') = ''cancelled''
   \<and> cancelOrder (shop_after_order ''cancelled'') other_customer 0 =
     (Inl NotAuthorizedToCancel, shop_after_order ''cancelled'')
   \<and> http_status NotAuthorizedToCancel = 403"
  by (simp add: cancelOrder_def shop_after_order_def placed_order_def findById_def
      other_customer_def)

section \<open>Order status\<close>

text \<open>
  Claim C8, as amended. Cancellation respects the terminal states: an order that is
  cancelled or delivered is left as it is, and an order that a cancellation changes is the
  one addressed, was in neither terminal state, and ends with status cancelled. Nothing
  of this kind holds of the admin status update, the webhook and the payment
  confirmation, which assign a status without reading the current one.
\<close>

theorem cancel_respects_terminal:
  assumes "findById (db_orders d) i = Some ord"
  shows "findById (db_orders (snd (cancelOrder d u oid))) i = Some ord
     \<or> (i = oid \<and> status ord \<noteq> ''cancelled'' \<and> status ord \<noteq> ''delivered'' \<and>
        findById (db_orders (snd (cancelOrder d u oid))) i =
          Some (ord\<lparr>status := ''cancelled''\<rparr>))"
  using assms
  by (auto simp: cancelOrder_def findById_def Let_def nth_list_update
      split: option.splits if_splits)

theorem cancel_respects_terminal_witness:
  "findById (db_orders (shop_after_order ''shipped'')) 0 = Some (placed_order ''shipped'')
   \<and> findById (db_orders (snd (cancelOrder (shop_after_order ''shipped'') admin 0))) 0 =
       Some (placed_order ''cancelled'')
   \<and> findById (db_orders (snd (cancelOrder (shop_after_order ''delivered'') admin 0))) 0 =
       Some (placed_order ''delivered'')"
  using cancel_respects_terminal [of "shop_after_order ''shipped''" 0
      "placed_order ''shipped''" admin 0]
    cancel_respects_terminal [of "shop_after_order ''delivered''" 0
      "placed_order ''delivered''" admin 0]
  by (simp add: shop_after_order_def findById_def placed_order_def cancelOrder_def admin_def
      order_valid_def order_status_enum_def Let_def)

text \<open>
  The claim as first stated fails for the admin status update: it moves a delivered order
  back to pending.
\<close>

theorem admin_update_moves_delivered_back:
  "updateStatus (shop_after_order ''delivered'') 0 ''pending'' None =
     (Inr (StatusUpdated (placed_order ''pending'')), shop_after_order ''pending'')"
  by (simp add: updateStatus_def shop_after_order_def placed_order_def findById_def
      validStatuses_def order_valid_def order_status_enum_def Let_def)

text \<open>The payment confirmation and a webhook with the success code do the same.\<close>

lemma confirm_moves_delivered_back:
  "snd (confirm (shop_after_order ''delivered'') 0 ''320025071278'' ''completed'') =
     shop_after_order ''confirmed''"
  by (simp add: confirm_def shop_after_order_def placed_order_def findById_def
      order_valid_def order_status_enum_def Let_def)

lemma webhook_moves_delivered_back:
  "toNumber ''300.00'' = Some a \<Longrightarrow>
   db_orders (snd (payhere_webhook md5 toNumber secret_key (shop_after_order ''delivered'')
      (signed md5 secret_key (gateway_notice ''2'')))) = [placed_order ''confirmed'']"
  by (simp add: payhere_webhook_def signed_def expectedMd5sig_def gateway_notice_def
      shop_after_order_def placed_order_def findById_def order_valid_def order_status_enum_def
      payment_valid_def payment_method_enum_def payment_status_enum_def Let_def)

text \<open>
  Claim C9, as amended. The admin status update accepts exactly the six statuses pending,
  confirmed, shipped, delivered, cancelled and returned; any other value is rejected with
  a validation error (status 400) and nothing changes. For an accepted status and a
  stored order, the order gets the new status, and the tracking info of the request is
  attached when the new status is shipped and tracking info is supplied.
\<close>

theorem updateStatus_accepts_validStatuses:
  "(fst (updateStatus d oid s t) = Inl InvalidStatus) =
     (s \<notin> {''pending'', ''confirmed'', ''shipped'', ''delivered'', ''cancelled'', ''returned''})
   \<and> http_status InvalidStatus = 400
   \<and> (s \<notin> {''pending'', ''confirmed'', ''shipped'', ''delivered'', ''cancelled'', ''returned''}
        \<longrightarrow> updateStatus d oid s t = (Inl InvalidStatus, d))
   \<and> (s \<in> {''pending'', ''confirmed'', ''shipped'', ''delivered'', ''cancelled'', ''returned''}
        \<and> findById (db_orders d) oid = Some ord \<and> order_valid ord
        \<longrightarrow> updateStatus d oid s t =
             (Inr (StatusUpdated (ord\<lparr>status := s,
                     trackingInfo := (if s = ''shipped'' \<and> t \<noteq> None then t else trackingInfo ord)\<rparr>)),
              d\<lparr>db_orders := (db_orders d)[oid := ord\<lparr>status := s,
                     trackingInfo := (if s = ''shipped'' \<and> t \<noteq> None then t else trackingInfo ord)\<rparr>]\<rparr>))"
  by (auto simp: updateStatus_def validStatuses_def order_valid_def order_status_enum_def
      Let_def split: option.splits)

theorem updateStatus_accepts_validStatuses_witness:
  "updateStatus (shop_after_order ''confirmed'') 0 ''shipped''
      (Some \<lparr>provider = ''DHL'', trackingNumber = ''LK123'', trackingStatus = ''in transit''\<rparr>) =
     (Inr (StatusUpdated ((placed_order ''shipped'')
        \<lparr>trackingInfo := Some \<lparr>provider = ''DHL'', trackingNumber = ''LK123'',
             trackingStatus = ''in transit''\<rparr>\<rparr>)),
      (shop_after_order ''confirmed'')
        \<lparr>db_orders := [(placed_order ''shipped'')
           \<lparr>trackingInfo := Some \<lparr>provider = ''DHL'', trackingNumber = ''LK123'',
             trackingStatus = ''in transit''\<rparr>\<rparr>]\<rparr>)
   \<and> updateStatus (shop_after_order ''confirmed'') 0 ''refunded'' None =
     (Inl InvalidStatus, shop_after_order ''confirmed'')"
  using updateStatus_accepts_validStatuses [of "shop_after_order ''confirmed''" 0 "''shipped''"
      "Some \<lparr>provider = ''DHL'', trackingNumber = ''LK123'', trackingStatus = ''in transit''\<rparr>"
      "placed_order ''confirmed''"]
    updateStatus_accepts_validStatuses [of "shop_after_order ''confirmed''" 0 "''refunded''"
      None "placed_order ''confirmed''"]
  by (simp add: shop_after_order_def findById_def placed_order_def order_valid_def
      order_status_enum_def)

text \<open>
  The claim as first stated counts \<^verbatim>\<open>payment_failed\<close> among the accepted statuses; the
  admin status update rejects it.
\<close>

theorem admin_update_rejects_payment_failed:
  "updateStatus (shop_after_order ''pending'') 0 ''payment_failed'' None =
     (Inl InvalidStatus, shop_after_order ''pending'') \<and> http_status InvalidStatus = 400"
  by (simp add: updateStatus_def validStatuses_def)

section \<open>Webhook\<close>

subsection \<open>Signature verification\<close>

text \<open>
  The handler that reads \<^verbatim>\<open>PAYHERE_SECRET_KEY\<close> passes the signature check exactly
  when the supplied signature is, character for character, the upper-cased MD5 hex
  digest of merchant id, gateway order id, amount, currency, status code and the
  upper-cased MD5 hex digest of the merchant secret, concatenated in this order. Every
  other signature is answered with the invalid-signature error, and the database is
  returned as it was.
\<close>

theorem webhook_signature_check:
  "(fst (payhere_webhook md5 toNumber secret_key d body) \<noteq> Inl InvalidSignature) =
     (md5sig body =
        toUpperCase (md5 (merchant_id body @ order_id body @ payhere_amount body @
          payhere_currency body @ status_code body @
          toUpperCase (md5 (merchantSecret secret_key)))))
   \<and> (md5sig body \<noteq>
        toUpperCase (md5 (merchant_id body @ order_id body @ payhere_amount body @
          payhere_currency body @ status_code body @
          toUpperCase (md5 (merchantSecret secret_key))))
      \<longrightarrow> payhere_webhook md5 toNumber secret_key d body = (Inl InvalidSignature, d))"
  by (auto simp: payhere_webhook_def expectedMd5sig_def secretMd5Upper_def Let_def
      split: option.splits)

text \<open>
  Sample values of \<open>toUpperCase\<close>, for a run of the check with list reversal standing in
  for the hash: the right signature passes, and the same signature in lower case does not.
\<close>

lemma toUpperCase_samples:
  "toUpperCase ''terc3s'' = ''TERC3S''"
  "toUpperCase ''S3CRET2RKL00.0030-DRO9411221'' = ''S3CRET2RKL00.0030-DRO9411221''"
  by code_simp+

theorem webhook_signature_check_witness:
  "payhere_webhook rev (\<lambda>s. Some 300) (Some ''s3cret'') (shop_after_order ''pending'')
      ((gateway_notice ''2'')\<lparr>md5sig := ''s3cret2rkl00.0030-dro9411221''\<rparr>) =
     (Inl InvalidSignature, shop_after_order ''pending'')
   \<and> fst (payhere_webhook rev (\<lambda>s. Some 300) (Some ''s3cret'') (shop_after_order ''pending'')
      ((gateway_notice ''2'')\<lparr>md5sig := ''S3CRET2RKL00.0030-DRO9411221''\<rparr>))
      \<noteq> Inl InvalidSignature"
  using webhook_signature_check [of rev "\<lambda>s. Some 300" "Some ''s3cret''"
      "shop_after_order ''pending''"
      "(gateway_notice ''2'')\<lparr>md5sig := ''s3cret2rkl00.0030-dro9411221''\<rparr>"]
    webhook_signature_check [of rev "\<lambda>s. Some 300" "Some ''s3cret''"
      "shop_after_order ''pending''"
      "(gateway_notice ''2'')\<lparr>md5sig := ''S3CRET2RKL00.0030-DRO9411221''\<rparr>"]
  by (simp add: gateway_notice_def toUpperCase_samples merchantSecret_def)

text \<open>
  The expected signature holds no lower-case letter, so a signature with one is rejected
  whatever the hash gives.
\<close>

lemma upper_char_not_lower:
  "\<not> (97 \<le> (of_char (upper_char c) :: nat) \<and> (of_char (upper_char c) :: nat) \<le> 122)"
  by (auto simp: upper_char_def Let_def)

lemma lowercase_signature_rejected:
  assumes "c \<in> set (md5sig body)" and "97 \<le> (of_char c :: nat)" and "(of_char c :: nat) \<le> 122"
  shows "payhere_webhook md5 toNumber secret_key d body = (Inl InvalidSignature, d)"
proof -
  have "c \<notin> set (expectedMd5sig md5 secret_key body)"
    using assms(2,3) upper_char_not_lower by (auto simp: expectedMd5sig_def toUpperCase_def)
  with assms(1) have "md5sig body \<noteq> expectedMd5sig md5 secret_key body" by auto
  then show ?thesis by (simp add: payhere_webhook_def)
qed

text \<open>
  The handler that reads \<^verbatim>\<open>PAYHERE_SECRET\<close> passes the signature check exactly when the
  supplied signature is the upper-cased MD5 hex digest of the five fields followed by
  the secret itself. Whatever the signature, it stores nothing: the payment it builds
  lacks the required paths, so its save is rejected.
\<close>

lemma webhook_plain_signature_check:
  "(fst (payhere_webhook_plain md5 toNumber secret_var d body) \<noteq> Inl InvalidSignature) =
     (md5sig body =
        toUpperCase (md5 (merchant_id body @ order_id body @ payhere_amount body @
          payhere_currency body @ status_code body @ plainSecret secret_var)))"
  by (auto simp: payhere_webhook_plain_def expectedMd5sig_plain_def save_payment_def
      split: option.splits)

lemma webhook_plain_stores_nothing:
  "snd (payhere_webhook_plain md5 toNumber secret_var d body) = d"
  by (auto simp: payhere_webhook_plain_def save_payment_def split: option.splits)

subsection \<open>The two handlers on a notification of the gateway\<close>

text \<open>
  Values of \<open>md5_hex\<close>: the digests of the empty text and of \<^verbatim>\<open>abc\<close> as RFC 1321 lists
  them, and the digests that the two handlers take for the success notification of order
  0 under the secret \<^verbatim>\<open>s3cret\<close>.
\<close>

lemma md5_hex_empty: "md5_hex [] = ''d41d8cd98f00b204e9800998ecf8427e''"
  by code_simp

lemma md5_hex_abc: "md5_hex ''abc'' = ''900150983cd24fb0d6963f7d28e17f72''"
  by code_simp

lemma md5_hex_secret: "md5_hex ''s3cret'' = ''33e1b232a4e6fa0028a6670753749a17''"
  by code_simp

lemma md5_hex_fields_digest:
  "md5_hex ''1221149ORD-0300.00LKR233E1B232A4E6FA0028A6670753749A17'' =
     ''724e4ff81eb382f9f1c94481e1194cde''"
  by code_simp

lemma md5_hex_fields_secret:
  "md5_hex ''1221149ORD-0300.00LKR2s3cret'' = ''ff531a4ae6d2fcccbdd3f2b9ca0ea9dc''"
  by code_simp

lemma toUpperCase_digests:
  "toUpperCase ''33e1b232a4e6fa0028a6670753749a17'' = ''33E1B232A4E6FA0028A6670753749A17''"
  "toUpperCase ''724e4ff81eb382f9f1c94481e1194cde'' = ''724E4FF81EB382F9F1C94481E1194CDE''"
  "toUpperCase ''ff531a4ae6d2fcccbdd3f2b9ca0ea9dc'' = ''FF531A4AE6D2FCCCBDD3F2B9CA0EA9DC''"
  by code_simp+

text \<open>
  Claim C1, at the success notification for order 0 that carries the signature of the
  claim's construction for the secret \<^verbatim>\<open>s3cret\<close>, the upper-cased MD5 hex digest of the
  five fields and the upper-cased MD5 hex digest of the secret. The handler that reads
  \<^verbatim>\<open>PAYHERE_SECRET_KEY\<close> passes it, as the claim says. The handler that reads
  \<^verbatim>\<open>PAYHERE_SECRET\<close> compares it with the digest of the fields and the secret itself
  and answers with the invalid-signature error.
\<close>

theorem webhook_plain_rejects_gateway_signature:
  "md5sig gateway_signed_notice =
     toUpperCase (md5_hex (merchant_id gateway_signed_notice @ order_id gateway_signed_notice @
       payhere_amount gateway_signed_notice @ payhere_currency gateway_signed_notice @
       status_code gateway_signed_notice @ toUpperCase (md5_hex ''s3cret'')))
   \<and> fst (payhere_webhook md5_hex toNumber (Some ''s3cret'') (shop_after_order ''pending'')
        gateway_signed_notice) \<noteq> Inl InvalidSignature
   \<and> payhere_webhook_plain md5_hex toNumber (Some ''s3cret'') (shop_after_order ''pending'')
        gateway_signed_notice = (Inl InvalidSignature, shop_after_order ''pending'')
   \<and> http_status InvalidSignature = 400"
proof -
  have sig: "md5sig gateway_signed_notice = ''724E4FF81EB382F9F1C94481E1194CDE''"
    by (simp add: gateway_signed_notice_def)
  have digest: "expectedMd5sig md5_hex (Some ''s3cret'') gateway_signed_notice =
      ''724E4FF81EB382F9F1C94481E1194CDE''"
    by (simp add: expectedMd5sig_def secretMd5Upper_def merchantSecret_def
        gateway_signed_notice_def gateway_notice_def md5_hex_secret md5_hex_fields_digest
        toUpperCase_digests)
  have plain: "expectedMd5sig_plain md5_hex (Some ''s3cret'') gateway_signed_notice =
      ''FF531A4AE6D2FCCCBDD3F2B9CA0EA9DC''"
    by (simp add: expectedMd5sig_plain_def plainSecret_def gateway_signed_notice_def
        gateway_notice_def md5_hex_fields_secret toUpperCase_digests)
  have first: "md5sig gateway_signed_notice =
      toUpperCase (md5_hex (merchant_id gateway_signed_notice @ order_id gateway_signed_notice @
        payhere_amount gateway_signed_notice @ payhere_currency gateway_signed_notice @
        status_code gateway_signed_notice @ toUpperCase (md5_hex ''s3cret'')))"
    using digest sig
    by (simp only: expectedMd5sig_def secretMd5Upper_def merchantSecret_def option.case)
  have passes: "fst (payhere_webhook md5_hex toNumber (Some ''s3cret'')
      (shop_after_order ''pending'') gateway_signed_notice) \<noteq> Inl InvalidSignature"
    using digest sig
    by (auto simp: payhere_webhook_def Let_def split: option.splits)
  have rejected: "payhere_webhook_plain md5_hex toNumber (Some ''s3cret'')
      (shop_after_order ''pending'') gateway_signed_notice =
        (Inl InvalidSignature, shop_after_order ''pending'')"
    using plain sig by (simp add: payhere_webhook_plain_def)
  from first passes rejected show ?thesis by simp
qed

subsection \<open>Applying a verified notification\<close>

text \<open>
  With the success code, a numeric amount and a stored order that has its required
  fields, the payment record is stored with status paid and the gateway's payment id as
  transaction id, and the order becomes confirmed.
\<close>

lemma webhook_success_code:
  assumes "md5sig body = expectedMd5sig md5 secret_key body"
    and "findById (db_orders d) (custom_1 body) = Some ord"
    and "status_code body = ''2''"
    and "toNumber (payhere_amount body) = Some a"
    and "totalAmount ord \<noteq> None" and "truthy (shippingAddress ord)"
  shows "payhere_webhook md5 toNumber secret_key d body =
     (Inr WebhookAccepted,
      d\<lparr>db_payments := db_payments d @
           [\<lparr>order = custom_1 body, amount = Some a, pmethod = ''card'', pstatus = ''paid'',
             transactionId = Some (payment_id body)\<rparr>],
        db_orders := (db_orders d)[custom_1 body := ord\<lparr>status := ''confirmed''\<rparr>]\<rparr>)"
  using assms
  by (simp add: payhere_webhook_def Let_def payment_valid_def payment_method_enum_def
      payment_status_enum_def order_valid_def order_status_enum_def)

text \<open>
  With any other code, the handler assigns the status \<^verbatim>\<open>'payment_failed'\<close>, which is
  not in the enumeration of \<^verbatim>\<open>orderSchema.status\<close>: the save of the order is rejected,
  the answer is 500, and the stored orders are as before.
\<close>

lemma payment_failed_not_in_enum: "\<not> order_valid (ord\<lparr>status := ''payment_failed''\<rparr>)"
  by (simp add: order_valid_def order_status_enum_def)

lemma webhook_failure_code:
  assumes "md5sig body = expectedMd5sig md5 secret_key body"
    and "findById (db_orders d) (custom_1 body) = Some ord"
    and "status_code body \<noteq> ''2''"
  shows "fst (payhere_webhook md5 toNumber secret_key d body) = Inl WebhookProcessingFailed"
    and "db_orders (snd (payhere_webhook md5 toNumber secret_key d body)) = db_orders d"
  using assms
  by (simp_all add: payhere_webhook_def Let_def payment_failed_not_in_enum)

text \<open>
  Claim C4, at a correctly signed notification with the failure code 1 for the pending
  order 0, for any hash and any reading of the amount: the handler answers 500 and the
  order is still pending, where the claim has its status become payment_failed.
\<close>

theorem webhook_failure_code_keeps_order_pending:
  "fst (payhere_webhook md5 toNumber secret_key (shop_after_order ''pending'')
          (signed md5 secret_key (gateway_notice ''1''))) = Inl WebhookProcessingFailed
   \<and> http_status WebhookProcessingFailed = 500
   \<and> map status (db_orders (snd (payhere_webhook md5 toNumber secret_key
          (shop_after_order ''pending'') (signed md5 secret_key (gateway_notice ''1'')))))
       = [''pending'']"
  by (simp add: payhere_webhook_def signed_def expectedMd5sig_def gateway_notice_def
      shop_after_order_def placed_order_def findById_def order_valid_def order_status_enum_def
      Let_def)

end
